theory Spec2Isabelle
  imports Complex_Main
begin

section \<open>SQL values and operators\<close>

text \<open>
  The transform runs as SQL inside DuckDB.  Every column of the raw table is nullable, so a
  column value is an \<open>option\<close> with \<open>None\<close> for NULL.  A DOUBLE is modelled as a real
  number: arithmetic is exact, the rounding of IEEE doubles is not part of the model.
  Comparisons and arithmetic with a NULL operand give NULL, and a \<open>CASE\<close> takes the first
  branch whose condition is true (a NULL condition is not true).
\<close>

definition sql_le :: "real option \<Rightarrow> real option \<Rightarrow> bool option" where
  "sql_le a b = (case a of None \<Rightarrow> None
                 | Some x \<Rightarrow> (case b of None \<Rightarrow> None | Some y \<Rightarrow> Some (x \<le> y)))"

definition sql_bin :: "(real \<Rightarrow> real \<Rightarrow> real) \<Rightarrow> real option \<Rightarrow> real option \<Rightarrow> real option" where
  "sql_bin f a b = (case a of None \<Rightarrow> None
                    | Some x \<Rightarrow> (case b of None \<Rightarrow> None | Some y \<Rightarrow> Some (f x y)))"

definition sql_add :: "real option \<Rightarrow> real option \<Rightarrow> real option" where
  "sql_add = sql_bin (\<lambda>x y. x + y)"

definition sql_sub :: "real option \<Rightarrow> real option \<Rightarrow> real option" where
  "sql_sub = sql_bin (\<lambda>x y. x - y)"

definition sql_mul :: "real option \<Rightarrow> real option \<Rightarrow> real option" where
  "sql_mul = sql_bin (\<lambda>x y. x * y)"

text \<open>Every divisor in the queries below is a non-zero literal.\<close>

definition sql_div :: "real option \<Rightarrow> real option \<Rightarrow> real option" where
  "sql_div = sql_bin (\<lambda>x y. x / y)"

fun sql_case :: "(bool option \<times> 'a) list \<Rightarrow> 'a \<Rightarrow> 'a" where
  "sql_case [] e = e"
| "sql_case ((c, v) # bs) e = (if c = Some True then v else sql_case bs e)"

definition coalesce :: "'a option \<Rightarrow> 'a option \<Rightarrow> 'a option" where
  "coalesce a b = (case a of Some x \<Rightarrow> Some x | None \<Rightarrow> b)"

fun non_null :: "'a option list \<Rightarrow> 'a list" where
  "non_null [] = []"
| "non_null (None # xs) = non_null xs"
| "non_null (Some v # xs) = v # non_null xs"

text \<open>\<open>AVG\<close> skips NULLs and is NULL when nothing is left to average.\<close>

definition sql_avg :: "real option list \<Rightarrow> real option" where
  "sql_avg xs = (let vs = non_null xs
                 in if vs = [] then None else Some (sum_list vs / real (length vs)))"

text \<open>\<open>COUNT(col)\<close> counts the non-NULL values; \<open>COUNT(DISTINCT col)\<close> the distinct ones.\<close>

definition sql_count :: "'a option list \<Rightarrow> nat" where
  "sql_count xs = length (non_null xs)"

definition sql_count_distinct :: "'a option list \<Rightarrow> nat" where
  "sql_count_distinct xs = length (remdups (non_null xs))"

section \<open>Tables\<close>

text \<open>
  \<open>raw_data_air_quality\<close> as created in \<open>load_raw.py\<close>: eleven nullable columns, the
  timestamp stored as VARCHAR.  The record is polymorphic in the timestamp type because the
  \<open>cleaned\<close> subquery keeps the columns and casts the timestamp to TIMESTAMP.
\<close>

record 'ts reading =
  station_id :: "string option"
  station_type :: "string option"
  timestamp :: "'ts option"
  pm25 :: "real option"
  pm10 :: "real option"
  no2 :: "real option"
  o3 :: "real option"
  so2 :: "real option"
  co :: "real option"
  temperature :: "real option"
  humidity :: "real option"

text \<open>A TIMESTAMP is a count of microseconds since 1970-01-01, a DATE a count of days.\<close>

type_synonym sql_timestamp = int

type_synonym sql_date = int

record 'ts with_aqi = "'ts reading" +
  aqi :: "real option"
  hour :: "int option"
  day_of_week :: "int option"
  date :: "sql_date option"

record 'ts analytics = "'ts with_aqi" +
  health_category :: string
  health_color :: string

text \<open>
  The database file: each table is absent (\<open>None\<close>) or holds its rows.  A table is a bag of
  rows; the list keeps the rows of \<open>analytics_air_quality\<close> in the order of the raw rows they
  come from, so that row \<open>i\<close> of one can be compared with row \<open>i\<close> of the other.
\<close>

record db =
  raw_data_air_quality :: "string reading list option"
  analytics_air_quality :: "sql_timestamp analytics list option"

datatype error = CatalogException | ValueError | ConversionException

section \<open>The transform query of \<open>scripts/transform.py\<close>\<close>

subsection \<open>Transformation 1: cleaning\<close>

text \<open>\<open>AVG(col) OVER (PARTITION BY station_id)\<close>: NULL station ids form one partition.\<close>

definition partition_by_station :: "'ts reading list \<Rightarrow> 'ts reading \<Rightarrow> 'ts reading list" where
  "partition_by_station rows r = filter (\<lambda>r'. station_id r' = station_id r) rows"

definition avg_over_station ::
  "('ts reading \<Rightarrow> real option) \<Rightarrow> 'ts reading list \<Rightarrow> 'ts reading \<Rightarrow> real option" where
  "avg_over_station col rows r = sql_avg (map col (partition_by_station rows r))"

text \<open>
  \<open>CAST(timestamp AS TIMESTAMP)\<close> parses the text with DuckDB's parser, which is the
  parameter \<open>cast\<close>: \<open>None\<close> is a text that DuckDB rejects, and the statement then raises.
\<close>

definition cast_timestamp ::
  "(string \<Rightarrow> sql_timestamp option) \<Rightarrow> string option \<Rightarrow> error + sql_timestamp option" where
  "cast_timestamp cast s = (case s of None \<Rightarrow> Inr None
     | Some txt \<Rightarrow> (case cast txt of None \<Rightarrow> Inl ConversionException
                    | Some t \<Rightarrow> Inr (Some t)))"

definition cleaned_row ::
  "string reading list \<Rightarrow> sql_timestamp option \<Rightarrow> string reading \<Rightarrow> sql_timestamp reading" where
  "cleaned_row rows ts r =
     \<lparr> station_id = station_id r,
       station_type = station_type r,
       timestamp = ts,
       pm25 = coalesce (pm25 r) (avg_over_station pm25 rows r),
       pm10 = coalesce (pm10 r) (avg_over_station pm10 rows r),
       no2 = coalesce (no2 r) (avg_over_station no2 rows r),
       o3 = coalesce (o3 r) (avg_over_station o3 rows r),
       so2 = so2 r,
       co = co r,
       temperature = temperature r,
       humidity = humidity r \<rparr>"

definition cleaned ::
  "(string \<Rightarrow> sql_timestamp option) \<Rightarrow> string reading list \<Rightarrow> string reading
     \<Rightarrow> error + sql_timestamp reading" where
  "cleaned cast rows r = (case cast_timestamp cast (timestamp r) of
       Inl e \<Rightarrow> Inl e
     | Inr ts \<Rightarrow> Inr (cleaned_row rows ts r))"

subsection \<open>Transformation 2: the AQI\<close>

definition aqi_of :: "real option \<Rightarrow> real option" where
  "aqi_of p = sql_case
     [(sql_le p (Some 12.0), sql_div (sql_mul p (Some 50.0)) (Some 12.0)),
      (sql_le p (Some 35.4),
         sql_add (Some 50.0) (sql_div (sql_mul (sql_sub p (Some 12.0)) (Some 50.0)) (Some 23.4))),
      (sql_le p (Some 55.4),
         sql_add (Some 100.0) (sql_div (sql_mul (sql_sub p (Some 35.4)) (Some 50.0)) (Some 20.0))),
      (sql_le p (Some 150.4),
         sql_add (Some 150.0) (sql_div (sql_mul (sql_sub p (Some 55.4)) (Some 50.0)) (Some 95.0))),
      (sql_le p (Some 250.4),
         sql_add (Some 200.0)
           (sql_div (sql_mul (sql_sub p (Some 150.4)) (Some 100.0)) (Some 100.0)))]
     (sql_add (Some 300.0) (sql_div (sql_mul (sql_sub p (Some 250.4)) (Some 100.0)) (Some 150.0)))"

definition extract_hour :: "sql_timestamp \<Rightarrow> int" where
  "extract_hour t = (t div 3600000000) mod 24"

text \<open>Day 0 (1970-01-01) was a Thursday; \<open>DOW\<close> counts from Sunday = 0.\<close>

definition extract_dow :: "sql_timestamp \<Rightarrow> int" where
  "extract_dow t = (t div 86400000000 + 4) mod 7"

definition cast_date :: "sql_timestamp \<Rightarrow> sql_date" where
  "cast_date t = t div 86400000000"

definition with_aqi_row :: "sql_timestamp reading \<Rightarrow> sql_timestamp with_aqi" where
  "with_aqi_row c = reading.extend c
     (with_aqi.fields (aqi_of (pm25 c))
        (map_option extract_hour (timestamp c))
        (map_option extract_dow (timestamp c))
        (map_option cast_date (timestamp c)))"

subsection \<open>Transformation 3: the health category\<close>

definition health_category_of :: "real option \<Rightarrow> string" where
  "health_category_of a = sql_case
     [(sql_le a (Some 50), ''Good''),
      (sql_le a (Some 100), ''Moderate''),
      (sql_le a (Some 150), ''Unhealthy for Sensitive Groups''),
      (sql_le a (Some 200), ''Unhealthy''),
      (sql_le a (Some 300), ''Very Unhealthy'')]
     ''Hazardous''"

definition health_color_of :: "real option \<Rightarrow> string" where
  "health_color_of a = sql_case
     [(sql_le a (Some 50), ''#00E400''),
      (sql_le a (Some 100), ''#FFFF00''),
      (sql_le a (Some 150), ''#FF7E00''),
      (sql_le a (Some 200), ''#FF0000''),
      (sql_le a (Some 300), ''#8F3F97'')]
     ''#7E0023''"

definition analytics_row :: "sql_timestamp with_aqi \<Rightarrow> sql_timestamp analytics" where
  "analytics_row w = with_aqi.extend w
     (analytics.fields (health_category_of (aqi w)) (health_color_of (aqi w)))"

subsection \<open>The statement \<open>CREATE OR REPLACE TABLE analytics_air_quality AS ...\<close>\<close>

text \<open>A statement that raises on one row produces no table.\<close>

fun collect :: "('e + 'a) list \<Rightarrow> 'e + 'a list" where
  "collect [] = Inr []"
| "collect (x # xs) = (case x of Inl e \<Rightarrow> Inl e
     | Inr v \<Rightarrow> (case collect xs of Inl e \<Rightarrow> Inl e | Inr vs \<Rightarrow> Inr (v # vs)))"

definition analytics_query ::
  "(string \<Rightarrow> sql_timestamp option) \<Rightarrow> string reading list
     \<Rightarrow> error + sql_timestamp analytics list" where
  "analytics_query cast rows = (case collect (map (cleaned cast rows) rows) of
       Inl e \<Rightarrow> Inl e
     | Inr cs \<Rightarrow> Inr (map (\<lambda>c. analytics_row (with_aqi_row c)) cs))"

section \<open>\<open>transform_data\<close>\<close>

text \<open>
  What a run reports: three fields of the returned \<open>summary\<close> and the count printed by the
  final "raw data verification".  The aggregate views, the Parquet and JSON exports and the
  rounded statistics of the summary only read \<open>analytics_air_quality\<close>; they write to no
  table and are left out.
\<close>

record transform_report =
  total_records :: nat
  total_days :: nat
  total_stations :: nat
  raw_nulls :: nat

definition raw_nulls_query :: "'ts reading list \<Rightarrow> nat" where
  "raw_nulls_query rows = length (filter (\<lambda>r. pm25 r = None \<or> no2 r = None) rows)"

definition transform_data ::
  "(string \<Rightarrow> sql_timestamp option) \<Rightarrow> db \<Rightarrow> db \<times> (error + transform_report)" where
  "transform_data cast d = (case raw_data_air_quality d of
       None \<Rightarrow> (d, Inl CatalogException)
     | Some rows \<Rightarrow>
         if length rows = 0 then (d, Inl ValueError)
         else (case analytics_query cast rows of
             Inl e \<Rightarrow> (d, Inl e)
           | Inr es \<Rightarrow>
               (d\<lparr>analytics_air_quality := Some es\<rparr>,
                Inr \<lparr> total_records = length es,
                      total_days = sql_count_distinct (map date es),
                      total_stations = sql_count_distinct (map station_id es),
                      raw_nulls = raw_nulls_query rows \<rparr>)))"

section \<open>The orchestrated pipeline of \<open>dags/air_quality_elt_dag.py\<close>\<close>

text \<open>The AQI expression of the DAG's own transform task: a NULL PM2.5 counts as 0.\<close>

definition dag_aqi_of :: "real option \<Rightarrow> real option" where
  "dag_aqi_of p = (let q = coalesce p (Some 0) in sql_case
     [(sql_le q (Some 12), sql_div (sql_mul q (Some 50)) (Some 12)),
      (sql_le q (Some 35.4),
         sql_add (Some 50) (sql_div (sql_mul (sql_sub q (Some 12)) (Some 50)) (Some 23.4))),
      (sql_le q (Some 55.4),
         sql_add (Some 100) (sql_div (sql_mul (sql_sub q (Some 35.4)) (Some 50)) (Some 20))),
      (sql_le q (Some 150.4),
         sql_add (Some 150) (sql_div (sql_mul (sql_sub q (Some 55.4)) (Some 50)) (Some 95)))]
     (sql_add (Some 200) (sql_div (sql_mul (sql_sub q (Some 150.4)) (Some 100)) (Some 100))))"

text \<open>
  \<open>validate_pipeline\<close> runs three counts and logs them; the result holds the logged
  numbers: raw rows, raw rows with a NULL PM2.5, analytics rows.
\<close>

definition validate_pipeline :: "db \<Rightarrow> error + (nat \<times> nat \<times> nat)" where
  "validate_pipeline d = (case raw_data_air_quality d of
       None \<Rightarrow> Inl CatalogException
     | Some rows \<Rightarrow> (case analytics_air_quality d of
           None \<Rightarrow> Inl CatalogException
         | Some es \<Rightarrow>
             Inr (length rows, length rows - sql_count (map pm25 rows), length es)))"

section \<open>Notions used to state the properties\<close>

text \<open>The value of the AQI \<open>CASE\<close> on a non-null concentration, as a function on the reals.\<close>

definition aqi_segments :: "real \<Rightarrow> real" where
  "aqi_segments c =
     (if c \<le> 12.0 then c * 50.0 / 12.0
      else if c \<le> 35.4 then 50.0 + (c - 12.0) * 50.0 / 23.4
      else if c \<le> 55.4 then 100.0 + (c - 35.4) * 50.0 / 20.0
      else if c \<le> 150.4 then 150.0 + (c - 55.4) * 50.0 / 95.0
      else if c \<le> 250.4 then 200.0 + (c - 150.4) * 100.0 / 100.0
      else 300.0 + (c - 250.4) * 100.0 / 150.0)"

text \<open>
  The non-null values of a column at one station, and their arithmetic mean.  A station
  without any non-null value has no mean.
\<close>

definition station_values ::
  "(string reading \<Rightarrow> real option) \<Rightarrow> string reading list \<Rightarrow> string option \<Rightarrow> real list" where
  "station_values col rows sid = non_null (map col (filter (\<lambda>r. station_id r = sid) rows))"

definition station_mean ::
  "(string reading \<Rightarrow> real option) \<Rightarrow> string reading list \<Rightarrow> string option \<Rightarrow> real" where
  "station_mean col rows sid =
     sum_list (station_values col rows sid) / real (length (station_values col rows sid))"

text \<open>Every timestamp text of the table is one that the cast accepts.\<close>

definition timestamps_cast :: "(string \<Rightarrow> sql_timestamp option) \<Rightarrow> string reading list \<Rightarrow> bool" where
  "timestamps_cast cast rows =
     list_all (\<lambda>r. case timestamp r of None \<Rightarrow> True | Some txt \<Rightarrow> cast txt \<noteq> None) rows"

text \<open>The null count that \<open>load_raw.py\<close> prints right after the load.\<close>

definition load_null_count :: "'ts reading list \<Rightarrow> nat" where
  "load_null_count rows =
     length (filter (\<lambda>r. pm25 r = None \<or> no2 r = None \<or> o3 r = None) rows)"

subsection \<open>Sample data\<close>

text \<open>
  Readings in the format of \<open>extract.py\<close>, with a cast that knows the one timestamp text
  used (2024-01-01 00:00:00 is 1704067200 seconds after the epoch).
\<close>

definition sample_reading :: "string \<Rightarrow> real option \<Rightarrow> string reading" where
  "sample_reading sid p =
     \<lparr> station_id = Some sid,
       station_type = Some ''urban'',
       timestamp = Some ''2024-01-01 00:00:00'',
       pm25 = p,
       pm10 = Some 63.2,
       no2 = Some 30.5,
       o3 = Some 41,
       so2 = Some 9.8,
       co = Some 0.8,
       temperature = Some 22.5,
       humidity = Some 60 \<rparr>"

definition blank_reading :: "string \<Rightarrow> string reading" where
  "blank_reading sid =
     \<lparr> station_id = Some sid,
       station_type = Some ''industrial'',
       timestamp = Some ''2024-01-01 00:00:00'',
       pm25 = None,
       pm10 = None,
       no2 = None,
       o3 = None,
       so2 = Some 10.4,
       co = Some 1.1,
       temperature = Some 19.5,
       humidity = Some 71.5 \<rparr>"

definition sample_cast :: "string \<Rightarrow> sql_timestamp option" where
  "sample_cast txt = (if txt = ''2024-01-01 00:00:00'' then Some 1704067200000000 else None)"

text \<open>One station with the PM2.5 values 10, 20, 30 and one null.\<close>

definition known_station_rows :: "string reading list" where
  "known_station_rows =
     [sample_reading ''ST001'' (Some 10), sample_reading ''ST001'' (Some 20),
      sample_reading ''ST001'' (Some 30), sample_reading ''ST001'' None]"

definition known_station_db :: db where
  "known_station_db =
     \<lparr> raw_data_air_quality = Some known_station_rows, analytics_air_quality = None \<rparr>"

text \<open>Station ST002 has no value of any nullable pollutant, station ST001 has one row.\<close>

definition silent_station_rows :: "string reading list" where
  "silent_station_rows =
     [blank_reading ''ST002'', sample_reading ''ST001'' (Some 10), blank_reading ''ST002'']"

definition silent_station_db :: db where
  "silent_station_db =
     \<lparr> raw_data_air_quality = Some silent_station_rows, analytics_air_quality = None \<rparr>"

text \<open>
  Readings whose AQI is 50 (PM2.5 of 12), 50.5 (PM2.5 of 12.234), 100 (PM2.5 of 35.4) and
  400 (PM2.5 of 400.4), and one reading of a station without any PM2.5 value.
\<close>

definition boundary_rows :: "string reading list" where
  "boundary_rows =
     [sample_reading ''ST001'' (Some 12.0), sample_reading ''ST001'' (Some 12.234),
      sample_reading ''ST003'' (Some 35.4), sample_reading ''ST004'' (Some 400.4),
      blank_reading ''ST002'']"

definition boundary_db :: db where
  "boundary_db = \<lparr> raw_data_air_quality = Some boundary_rows, analytics_air_quality = None \<rparr>"

text \<open>A database whose analytics table has lost its rows.\<close>

definition mismatched_db :: db where
  "mismatched_db =
     \<lparr> raw_data_air_quality = Some [sample_reading ''ST001'' None, sample_reading ''ST001'' (Some 10)],
       analytics_air_quality = Some [] \<rparr>"

section \<open>Evaluation rules\<close>

lemma sql_le_Some [simp]: "sql_le (Some x) (Some y) = Some (x \<le> y)"
  by (simp add: sql_le_def)

lemma sql_le_None [simp]: "sql_le None b = None"
  by (simp add: sql_le_def)

lemma sql_bin_Some [simp]: "sql_bin f (Some x) (Some y) = Some (f x y)"
  by (simp add: sql_bin_def)

lemma sql_bin_None [simp]: "sql_bin f None b = None"
  by (simp add: sql_bin_def)

lemma sql_bin_None_right [simp]: "sql_bin f a None = None"
  by (simp add: sql_bin_def split: option.splits)

lemmas sql_arith = sql_add_def sql_sub_def sql_mul_def sql_div_def

lemma aqi_of_None: "aqi_of None = None"
  by (simp add: aqi_of_def sql_arith)

section \<open>The AQI at the breakpoints\<close>

text \<open>
  C1. The AQI expression maps the breakpoint concentrations exactly:
  AQI(0) = 0, AQI(12.0) = 50, AQI(35.4) = 100, AQI(55.4) = 150, AQI(150.4) = 200 and
  AQI(250.4) = 300.
\<close>

theorem aqi_breakpoints_exact:
  "aqi_of (Some 0) = Some 0 \<and> aqi_of (Some 12.0) = Some 50 \<and> aqi_of (Some 35.4) = Some 100
   \<and> aqi_of (Some 55.4) = Some 150 \<and> aqi_of (Some 150.4) = Some 200
   \<and> aqi_of (Some 250.4) = Some 300"
  by (simp add: aqi_of_def sql_arith)

section \<open>The health category of a non-null AQI\<close>

lemma health_category_of_Some:
  "health_category_of (Some a) =
     (if a \<le> 50 then ''Good''
      else if a \<le> 100 then ''Moderate''
      else if a \<le> 150 then ''Unhealthy for Sensitive Groups''
      else if a \<le> 200 then ''Unhealthy''
      else if a \<le> 300 then ''Very Unhealthy''
      else ''Hazardous'')"
  by (simp add: health_category_of_def)

section \<open>Shape of the AQI\<close>

text \<open>On a non-null concentration the \<open>CASE\<close> is an ordinary chain of conditionals.\<close>

lemma aqi_of_Some:
  "aqi_of (Some c) = Some
     (if c \<le> 12.0 then c * 50.0 / 12.0
      else if c \<le> 35.4 then 50.0 + (c - 12.0) * 50.0 / 23.4
      else if c \<le> 55.4 then 100.0 + (c - 35.4) * 50.0 / 20.0
      else if c \<le> 150.4 then 150.0 + (c - 55.4) * 50.0 / 95.0
      else if c \<le> 250.4 then 200.0 + (c - 150.4) * 100.0 / 100.0
      else 300.0 + (c - 250.4) * 100.0 / 150.0)"
  by (simp add: aqi_of_def sql_arith)

text \<open>
  Two functions glued at \<open>k\<close> stay non-decreasing when the left one is non-decreasing up
  to \<open>k\<close>, the right one everywhere, and the left value at \<open>k\<close> is below the right one
  from \<open>k\<close> on; they stay continuous when they agree at \<open>k\<close>.
\<close>

lemma glue_mono:
  fixes f g :: "real \<Rightarrow> real"
  assumes f: "\<And>x y. x \<le> y \<Longrightarrow> y \<le> k \<Longrightarrow> f x \<le> f y"
    and g: "\<And>x y. x \<le> y \<Longrightarrow> g x \<le> g y"
    and fg: "\<And>y. k \<le> y \<Longrightarrow> f k \<le> g y"
    and ab: "a \<le> b"
  shows "(if a \<le> k then f a else g a) \<le> (if b \<le> k then f b else g b)"
proof (cases "b \<le> k")
  case True
  with ab f show ?thesis by simp
next
  case b_right: False
  show ?thesis
  proof (cases "a \<le> k")
    case True
    have "f a \<le> f k" using True f by simp
    also have "\<dots> \<le> g b" using b_right fg by simp
    finally show ?thesis using True b_right by simp
  next
    case False
    with ab g b_right show ?thesis by simp
  qed
qed

lemma glue_continuous:
  fixes f g :: "real \<Rightarrow> real"
  assumes "continuous_on UNIV f" "continuous_on UNIV g" "f k = g k"
  shows "continuous_on UNIV (\<lambda>x. if x \<le> k then f x else g x)"
proof -
  have "continuous_on ({..k} \<union> {k..}) (\<lambda>x. if x \<le> k then f x else g x)"
  proof (rule continuous_on_If)
    show "continuous_on {..k} f" "continuous_on {k..} g"
      using assms continuous_on_subset by blast+
  qed (use assms in \<open>auto simp: order.antisym\<close>)
  moreover have "{..k} \<union> {k..} = (UNIV :: real set)" by auto
  ultimately show ?thesis by simp
qed

lemma aqi_of_segments: "aqi_of (Some c) = Some (aqi_segments c)"
  by (simp only: aqi_of_Some aqi_segments_def)

lemma aqi_segments_mono: "a \<le> b \<Longrightarrow> aqi_segments a \<le> aqi_segments b"
  unfolding aqi_segments_def
  by (intro glue_mono) (simp_all split: if_splits)

lemma aqi_segments_continuous: "continuous_on UNIV aqi_segments"
  unfolding aqi_segments_def
  by (intro glue_continuous continuous_intros) simp_all

text \<open>
  C2. The AQI is non-decreasing and continuous: for concentrations \<open>0 \<le> a \<le> b\<close> both
  have an AQI and AQI(a) \<open>\<le>\<close> AQI(b), and the AQI of a non-null concentration is a
  continuous function of it (the segments meet at every breakpoint).
\<close>

theorem aqi_monotone_continuous:
  "(\<forall>a b. 0 \<le> a \<and> a \<le> b \<longrightarrow>
      (\<exists>x y. aqi_of (Some a) = Some x \<and> aqi_of (Some b) = Some y \<and> x \<le> y))
   \<and> (\<exists>f. (\<forall>c. aqi_of (Some c) = Some (f c)) \<and> continuous_on UNIV f)"
proof
  show "\<forall>a b. 0 \<le> a \<and> a \<le> b \<longrightarrow>
      (\<exists>x y. aqi_of (Some a) = Some x \<and> aqi_of (Some b) = Some y \<and> x \<le> y)"
    by (auto simp: aqi_of_segments intro: aqi_segments_mono)
  show "\<exists>f. (\<forall>c. aqi_of (Some c) = Some (f c)) \<and> continuous_on UNIV f"
    using aqi_of_segments aqi_segments_continuous by blast
qed

theorem aqi_monotone_continuous_witness:
  "(0::real) \<le> 12.0 \<and> (12.0::real) \<le> 35.4
   \<and> (\<exists>x y. aqi_of (Some 12.0) = Some x \<and> aqi_of (Some 35.4) = Some y \<and> x \<le> y)"
proof -
  have h: "(0::real) \<le> 12.0 \<and> (12.0::real) \<le> 35.4" by simp
  from aqi_monotone_continuous
  have "\<forall>a b. 0 \<le> a \<and> a \<le> b \<longrightarrow>
      (\<exists>x y. aqi_of (Some a) = Some x \<and> aqi_of (Some b) = Some y \<and> x \<le> y)"
    by (rule conjunct1)
  with h show ?thesis by blast
qed

section \<open>Above the last breakpoint\<close>

text \<open>
  C3. Above 250.4 the claim extrapolates the segment from 150.4 to 250.4, whose slope is 1:
  AQI(c) = 300 + (c - 250.4).  At 400.4 that is 450.  The last branch of the \<open>CASE\<close> in
  \<open>scripts/transform.py\<close> divides by 150 and gives 400, while the DAG's transform task, which
  has no branch of its own above 250.4, gives the 450 of the claim.
\<close>

theorem aqi_above_last_breakpoint_at_400:
  "aqi_of (Some 400.4) = Some 400
   \<and> aqi_of (Some 400.4) \<noteq> Some (300 + (400.4 - 250.4) * 1)
   \<and> dag_aqi_of (Some 400.4) = Some (300 + (400.4 - 250.4) * 1)"
  by (simp add: aqi_of_def dag_aqi_of_def coalesce_def sql_arith)

section \<open>What the transform query returns\<close>

lemma collect_map_Inr:
  "collect (map f xs) = Inr ys
   \<Longrightarrow> length ys = length xs \<and> (\<forall>i<length xs. f (xs ! i) = Inr (ys ! i))"
proof (induction xs arbitrary: ys)
  case Nil
  then show ?case by simp
next
  case (Cons x xs)
  from Cons.prems obtain v vs where v: "f x = Inr v" and vs: "collect (map f xs) = Inr vs"
    and ys: "ys = v # vs"
    by (auto split: sum.splits)
  from Cons.IH[OF vs] have len: "length vs = length xs"
    and nth: "\<forall>i<length xs. f (xs ! i) = Inr (vs ! i)" by simp_all
  show ?case
  proof (intro conjI allI impI)
    show "length ys = length (x # xs)" using ys len by simp
  next
    fix i assume "i < length (x # xs)"
    then show "f ((x # xs) ! i) = Inr (ys ! i)"
      using v nth ys by (cases i) simp_all
  qed
qed

lemma collect_map_total:
  "list_all (\<lambda>x. \<exists>v. f x = Inr v) xs \<Longrightarrow> \<exists>ys. collect (map f xs) = Inr ys"
  by (induction xs) auto

lemma cleaned_Inr: "cleaned cast rows r = Inr c \<Longrightarrow> \<exists>ts. c = cleaned_row rows ts r"
  by (auto simp: cleaned_def split: sum.splits)

lemma cleaned_total:
  "(case timestamp r of None \<Rightarrow> True | Some txt \<Rightarrow> cast txt \<noteq> None)
   \<Longrightarrow> \<exists>c. cleaned cast rows r = Inr c"
  by (auto simp: cleaned_def cast_timestamp_def split: option.splits)

lemma analytics_query_Inr:
  assumes "analytics_query cast rows = Inr es"
  shows "length es = length rows"
    and "i < length rows
         \<Longrightarrow> \<exists>ts. es ! i = analytics_row (with_aqi_row (cleaned_row rows ts (rows ! i)))"
proof -
  from assms obtain cs where cs: "collect (map (cleaned cast rows) rows) = Inr cs"
    and es: "es = map (\<lambda>c. analytics_row (with_aqi_row c)) cs"
    by (auto simp: analytics_query_def split: sum.splits)
  from collect_map_Inr[OF cs] have len: "length cs = length rows"
    and nth: "\<forall>i<length rows. cleaned cast rows (rows ! i) = Inr (cs ! i)" by simp_all
  show "length es = length rows" using es len by simp
  assume i: "i < length rows"
  with nth have "cleaned cast rows (rows ! i) = Inr (cs ! i)" by simp
  then obtain ts where "cs ! i = cleaned_row rows ts (rows ! i)"
    using cleaned_Inr by blast
  then show "\<exists>ts. es ! i = analytics_row (with_aqi_row (cleaned_row rows ts (rows ! i)))"
    using es i len by auto
qed

lemma analytics_query_total:
  assumes "timestamps_cast cast rows"
  shows "\<exists>es. analytics_query cast rows = Inr es"
proof -
  have "list_all (\<lambda>r. \<exists>c. cleaned cast rows r = Inr c) rows"
    using assms cleaned_total unfolding timestamps_cast_def list_all_iff by blast
  then obtain cs where "collect (map (cleaned cast rows) rows) = Inr cs"
    using collect_map_total by blast
  then show ?thesis by (simp add: analytics_query_def)
qed

lemma transform_data_Inr:
  assumes "transform_data cast d = (d', Inr rep)"
  shows "\<exists>rows es. raw_data_air_quality d = Some rows \<and> rows \<noteq> []
           \<and> analytics_query cast rows = Inr es
           \<and> d' = d\<lparr>analytics_air_quality := Some es\<rparr>
           \<and> total_records rep = length es \<and> raw_nulls rep = raw_nulls_query rows"
  using assms
  by (auto simp: transform_data_def split: option.splits if_splits sum.splits)

lemma transform_data_total:
  assumes "raw_data_air_quality d = Some rows" "rows \<noteq> []" "timestamps_cast cast rows"
  shows "\<exists>es rep. analytics_query cast rows = Inr es
           \<and> transform_data cast d = (d\<lparr>analytics_air_quality := Some es\<rparr>, Inr rep)
           \<and> total_records rep = length es"
proof -
  from analytics_query_total[OF assms(3)] obtain es where "analytics_query cast rows = Inr es" ..
  then show ?thesis using assms(1,2) by (simp add: transform_data_def)
qed

lemmas row_defs = analytics_row_def with_aqi_row_def cleaned_row_def
  reading.defs with_aqi.defs analytics.defs

lemma enriched_fields:
  "pm25 (analytics_row (with_aqi_row (cleaned_row rows ts r)))
     = coalesce (pm25 r) (avg_over_station pm25 rows r)"
  "pm10 (analytics_row (with_aqi_row (cleaned_row rows ts r)))
     = coalesce (pm10 r) (avg_over_station pm10 rows r)"
  "no2 (analytics_row (with_aqi_row (cleaned_row rows ts r)))
     = coalesce (no2 r) (avg_over_station no2 rows r)"
  "o3 (analytics_row (with_aqi_row (cleaned_row rows ts r)))
     = coalesce (o3 r) (avg_over_station o3 rows r)"
  "aqi (analytics_row (with_aqi_row (cleaned_row rows ts r)))
     = aqi_of (coalesce (pm25 r) (avg_over_station pm25 rows r))"
  "health_category (analytics_row (with_aqi_row (cleaned_row rows ts r)))
     = health_category_of (aqi_of (coalesce (pm25 r) (avg_over_station pm25 rows r)))"
  "health_color (analytics_row (with_aqi_row (cleaned_row rows ts r)))
     = health_color_of (aqi_of (coalesce (pm25 r) (avg_over_station pm25 rows r)))"
  by (simp_all add: row_defs)

lemma avg_over_station_eq:
  "avg_over_station col rows r =
     (if station_values col rows (station_id r) = [] then None
      else Some (station_mean col rows (station_id r)))"
  by (simp add: avg_over_station_def partition_by_station_def sql_avg_def station_values_def
      station_mean_def Let_def)

lemma non_null_empty_nth:
  "non_null xs = [] \<Longrightarrow> i < length xs \<Longrightarrow> xs ! i = None"
proof (induction xs arbitrary: i)
  case Nil then show ?case by simp
next
  case (Cons x xs)
  then show ?case by (cases x; cases i) simp_all
qed

lemma non_null_empty_mem: "non_null xs = [] \<Longrightarrow> x \<in> set xs \<Longrightarrow> x = None"
  by (metis in_set_conv_nth non_null_empty_nth)

lemma station_silent_own_value:
  assumes "station_values col rows (station_id r) = []" "r \<in> set rows"
  shows "col r = None"
proof -
  have "col r \<in> set (map col (filter (\<lambda>r'. station_id r' = station_id r) rows))"
    using assms(2) by auto
  then show ?thesis using assms(1) non_null_empty_mem unfolding station_values_def by blast
qed

lemma count_nulls: "length xs - sql_count xs = length (filter (\<lambda>x. x = None) xs)"
proof -
  have "length xs = sql_count xs + length (filter (\<lambda>x. x = None) xs)"
  proof (induction xs)
    case Nil then show ?case by (simp add: sql_count_def)
  next
    case (Cons x xs) then show ?case by (cases x) (simp_all add: sql_count_def)
  qed
  then show ?thesis by simp
qed

lemma imputed_value:
  assumes "station_values col rows (station_id r) \<noteq> []"
  shows "coalesce (col r) (avg_over_station col rows r)
         = (case col r of Some v \<Rightarrow> Some v | None \<Rightarrow> Some (station_mean col rows (station_id r)))"
  using assms by (simp add: coalesce_def avg_over_station_eq split: option.splits)

lemma silent_value:
  assumes "station_values col rows (station_id r) = []" "r \<in> set rows"
  shows "coalesce (col r) (avg_over_station col rows r) = None"
  using assms station_silent_own_value[OF assms] by (simp add: coalesce_def avg_over_station_eq)

section \<open>Imputation\<close>

text \<open>
  C5. After a run that returns, the enriched table has one row for each raw row, and for
  each of pm25, pm10, no2 and o3: at a station with at least one non-null value of the
  column, a non-null value is passed through unchanged and a null is replaced by the
  arithmetic mean of the station's non-null values.  For PM2.5 values 10, 20, 30 and one
  null the imputed value is 20, as the run on that sample shows.
\<close>

theorem imputation_station_mean:
  assumes raw: "raw_data_air_quality d = Some rows"
    and run: "transform_data cast d = (d', Inr rep)"
    and i: "i < length rows"
  shows "\<exists>es. analytics_air_quality d' = Some es \<and> length es = length rows
     \<and> (station_values pm25 rows (station_id (rows ! i)) \<noteq> [] \<longrightarrow>
          pm25 (es ! i) = (case pm25 (rows ! i) of Some v \<Rightarrow> Some v
             | None \<Rightarrow> Some (station_mean pm25 rows (station_id (rows ! i)))))
     \<and> (station_values pm10 rows (station_id (rows ! i)) \<noteq> [] \<longrightarrow>
          pm10 (es ! i) = (case pm10 (rows ! i) of Some v \<Rightarrow> Some v
             | None \<Rightarrow> Some (station_mean pm10 rows (station_id (rows ! i)))))
     \<and> (station_values no2 rows (station_id (rows ! i)) \<noteq> [] \<longrightarrow>
          no2 (es ! i) = (case no2 (rows ! i) of Some v \<Rightarrow> Some v
             | None \<Rightarrow> Some (station_mean no2 rows (station_id (rows ! i)))))
     \<and> (station_values o3 rows (station_id (rows ! i)) \<noteq> [] \<longrightarrow>
          o3 (es ! i) = (case o3 (rows ! i) of Some v \<Rightarrow> Some v
             | None \<Rightarrow> Some (station_mean o3 rows (station_id (rows ! i)))))"
proof -
  from transform_data_Inr[OF run] raw obtain es where q: "analytics_query cast rows = Inr es"
    and d': "d' = d\<lparr>analytics_air_quality := Some es\<rparr>" by auto
  from analytics_query_Inr[OF q] i obtain ts where len: "length es = length rows"
    and row: "es ! i = analytics_row (with_aqi_row (cleaned_row rows ts (rows ! i)))" by blast
  show ?thesis
    using d' len by (simp add: row enriched_fields imputed_value)
qed

theorem imputation_station_mean_witness:
  "raw_data_air_quality known_station_db = Some known_station_rows
   \<and> snd (transform_data sample_cast known_station_db)
       = Inr \<lparr>total_records = 4, total_days = 1, total_stations = 1, raw_nulls = 1\<rparr>
   \<and> (3::nat) < length known_station_rows
   \<and> station_values pm25 known_station_rows (station_id (known_station_rows ! 3)) = [10, 20, 30]
   \<and> station_values pm10 known_station_rows (station_id (known_station_rows ! 3)) \<noteq> []
   \<and> station_values no2 known_station_rows (station_id (known_station_rows ! 3)) \<noteq> []
   \<and> station_values o3 known_station_rows (station_id (known_station_rows ! 3)) \<noteq> []
   \<and> (\<exists>es. analytics_air_quality (fst (transform_data sample_cast known_station_db)) = Some es
         \<and> pm25 (es ! 3) = Some 20 \<and> pm10 (es ! 3) = Some 63.2
         \<and> no2 (es ! 3) = Some 30.5 \<and> o3 (es ! 3) = Some 41)"
proof -
  have raw: "raw_data_air_quality known_station_db = Some known_station_rows"
    by (simp add: known_station_db_def)
  have rep: "snd (transform_data sample_cast known_station_db)
       = Inr \<lparr>total_records = 4, total_days = 1, total_stations = 1, raw_nulls = 1\<rparr>"
    by (simp add: transform_data_def analytics_query_def cleaned_def cast_timestamp_def
        sample_cast_def known_station_db_def known_station_rows_def sample_reading_def
        sql_count_distinct_def raw_nulls_query_def row_defs cast_date_def)
  have run: "transform_data sample_cast known_station_db
       = (fst (transform_data sample_cast known_station_db),
          Inr \<lparr>total_records = 4, total_days = 1, total_stations = 1, raw_nulls = 1\<rparr>)"
    using rep by (simp add: prod_eq_iff)
  have i: "(3::nat) < length known_station_rows" by (simp add: known_station_rows_def)
  have vals: "station_values pm25 known_station_rows (station_id (known_station_rows ! 3)) = [10, 20, 30]"
    "station_values pm10 known_station_rows (station_id (known_station_rows ! 3)) \<noteq> []"
    "station_values no2 known_station_rows (station_id (known_station_rows ! 3)) \<noteq> []"
    "station_values o3 known_station_rows (station_id (known_station_rows ! 3)) \<noteq> []"
    by (simp_all add: station_values_def known_station_rows_def sample_reading_def)
  have own: "pm25 (known_station_rows ! 3) = None" "pm10 (known_station_rows ! 3) = Some 63.2"
    "no2 (known_station_rows ! 3) = Some 30.5" "o3 (known_station_rows ! 3) = Some 41"
    by (simp_all add: known_station_rows_def sample_reading_def)
  have mean: "station_mean pm25 known_station_rows (station_id (known_station_rows ! 3)) = 20"
    by (simp add: station_mean_def vals)
  from imputation_station_mean[OF raw run i]
  show ?thesis using raw rep i vals own mean by auto
qed

section \<open>Runs on sample data\<close>

lemmas sample_defs = sample_cast_def sample_reading_def blank_reading_def
  silent_station_db_def silent_station_rows_def

lemmas run_defs = transform_data_def analytics_query_def cleaned_def cast_timestamp_def
  sql_count_distinct_def raw_nulls_query_def cast_date_def

section \<open>A station without any value of a column\<close>

text \<open>
  C6. The claim asks for an explicit, named failure when a station has no non-null value of
  a nullable pollutant column.  On the sample where station ST002 has no pollutant value the
  run returns its report, and the enriched table holds a null PM2.5 and a null AQI for
  both rows of that station.
\<close>

theorem silent_station_run_succeeds:
  "snd (transform_data sample_cast silent_station_db)
     = Inr \<lparr>total_records = 3, total_days = 1, total_stations = 2, raw_nulls = 2\<rparr>
   \<and> station_values pm25 silent_station_rows (Some ''ST002'') = []
   \<and> map_option (map pm25) (analytics_air_quality (fst (transform_data sample_cast silent_station_db)))
       = Some [None, Some 10, None]
   \<and> map_option (map aqi) (analytics_air_quality (fst (transform_data sample_cast silent_station_db)))
       = Some [None, Some (125 / 3), None]"
  by (simp add: run_defs sample_defs row_defs station_values_def avg_over_station_def
      partition_by_station_def sql_avg_def coalesce_def aqi_of_def sql_arith)

text \<open>
  C6, as the code has it.  On a non-empty raw table whose timestamps cast, the run returns
  and replaces the analytics table, with one row for each raw row; a row of a station that
  has no non-null value of pm25, pm10, no2 or o3 keeps a null in that column, and with a
  null pm25 its aqi is null as well.
\<close>

theorem silent_station_stays_null:
  assumes raw: "raw_data_air_quality d = Some rows"
    and ne: "rows \<noteq> []"
    and ts: "timestamps_cast cast rows"
    and i: "i < length rows"
  shows "\<exists>es rep. transform_data cast d = (d\<lparr>analytics_air_quality := Some es\<rparr>, Inr rep)
     \<and> length es = length rows
     \<and> (station_values pm25 rows (station_id (rows ! i)) = [] \<longrightarrow>
          pm25 (es ! i) = None \<and> aqi (es ! i) = None)
     \<and> (station_values pm10 rows (station_id (rows ! i)) = [] \<longrightarrow> pm10 (es ! i) = None)
     \<and> (station_values no2 rows (station_id (rows ! i)) = [] \<longrightarrow> no2 (es ! i) = None)
     \<and> (station_values o3 rows (station_id (rows ! i)) = [] \<longrightarrow> o3 (es ! i) = None)"
proof -
  from transform_data_total[OF raw ne ts] obtain es rep
    where q: "analytics_query cast rows = Inr es"
      and run: "transform_data cast d = (d\<lparr>analytics_air_quality := Some es\<rparr>, Inr rep)"
    by blast
  from analytics_query_Inr[OF q] i obtain t where len: "length es = length rows"
    and row: "es ! i = analytics_row (with_aqi_row (cleaned_row rows t (rows ! i)))" by blast
  have mem: "rows ! i \<in> set rows" using i by simp
  have "pm25 (es ! i) = None \<and> aqi (es ! i) = None"
    if "station_values pm25 rows (station_id (rows ! i)) = []"
    using silent_value[OF that mem] by (simp add: row enriched_fields aqi_of_None)
  moreover have "pm10 (es ! i) = None" if "station_values pm10 rows (station_id (rows ! i)) = []"
    using silent_value[OF that mem] by (simp add: row enriched_fields)
  moreover have "no2 (es ! i) = None" if "station_values no2 rows (station_id (rows ! i)) = []"
    using silent_value[OF that mem] by (simp add: row enriched_fields)
  moreover have "o3 (es ! i) = None" if "station_values o3 rows (station_id (rows ! i)) = []"
    using silent_value[OF that mem] by (simp add: row enriched_fields)
  ultimately show ?thesis using run len by blast
qed

theorem silent_station_stays_null_witness:
  "raw_data_air_quality silent_station_db = Some silent_station_rows
   \<and> silent_station_rows \<noteq> []
   \<and> timestamps_cast sample_cast silent_station_rows
   \<and> (0::nat) < length silent_station_rows
   \<and> station_values pm25 silent_station_rows (station_id (silent_station_rows ! 0)) = []
   \<and> station_values pm10 silent_station_rows (station_id (silent_station_rows ! 0)) = []
   \<and> station_values no2 silent_station_rows (station_id (silent_station_rows ! 0)) = []
   \<and> station_values o3 silent_station_rows (station_id (silent_station_rows ! 0)) = []
   \<and> (\<exists>es rep. transform_data sample_cast silent_station_db
          = (silent_station_db\<lparr>analytics_air_quality := Some es\<rparr>, Inr rep)
        \<and> length es = 3 \<and> pm25 (es ! 0) = None \<and> aqi (es ! 0) = None
        \<and> pm10 (es ! 0) = None \<and> no2 (es ! 0) = None \<and> o3 (es ! 0) = None)"
proof -
  have raw: "raw_data_air_quality silent_station_db = Some silent_station_rows"
    by (simp add: silent_station_db_def)
  have ne: "silent_station_rows \<noteq> []" by (simp add: silent_station_rows_def)
  have ts: "timestamps_cast sample_cast silent_station_rows"
    by (simp add: timestamps_cast_def sample_defs)
  have i: "(0::nat) < length silent_station_rows" by (simp add: silent_station_rows_def)
  have silent: "station_values pm25 silent_station_rows (station_id (silent_station_rows ! 0)) = []"
    "station_values pm10 silent_station_rows (station_id (silent_station_rows ! 0)) = []"
    "station_values no2 silent_station_rows (station_id (silent_station_rows ! 0)) = []"
    "station_values o3 silent_station_rows (station_id (silent_station_rows ! 0)) = []"
    by (simp_all add: station_values_def sample_defs)
  have len: "length silent_station_rows = 3" by (simp add: silent_station_rows_def)
  from silent_station_stays_null[OF raw ne ts i]
  show ?thesis using raw ne ts i silent len by auto
qed

section \<open>Row count\<close>

text \<open>
  C7. On a non-empty raw table, every run that returns has written an enriched table with
  exactly as many rows as the raw table, and the \<open>total_records\<close> of its summary is that
  number.  The run returns whenever every timestamp text casts, whatever nulls the other
  columns hold.
\<close>

theorem row_count_conservation:
  assumes raw: "raw_data_air_quality d = Some rows"
    and ne: "rows \<noteq> []"
  shows "(timestamps_cast cast rows \<longrightarrow> (\<exists>d' rep. transform_data cast d = (d', Inr rep)))
     \<and> (\<forall>d' rep. transform_data cast d = (d', Inr rep) \<longrightarrow>
          (\<exists>es. analytics_air_quality d' = Some es \<and> length es = length rows
             \<and> total_records rep = length rows))"
proof (intro conjI allI impI)
  assume "timestamps_cast cast rows"
  from transform_data_total[OF raw ne this]
  show "\<exists>d' rep. transform_data cast d = (d', Inr rep)" by blast
next
  fix d' rep
  assume "transform_data cast d = (d', Inr rep)"
  from transform_data_Inr[OF this] raw obtain es
    where q: "analytics_query cast rows = Inr es"
      and d': "d' = d\<lparr>analytics_air_quality := Some es\<rparr>"
      and tot: "total_records rep = length es"
    by auto
  from analytics_query_Inr(1)[OF q] have "length es = length rows" .
  with d' tot
  show "\<exists>es. analytics_air_quality d' = Some es \<and> length es = length rows
           \<and> total_records rep = length rows"
    by simp
qed

theorem row_count_conservation_witness:
  "raw_data_air_quality known_station_db = Some known_station_rows
   \<and> known_station_rows \<noteq> []
   \<and> timestamps_cast sample_cast known_station_rows
   \<and> snd (transform_data sample_cast known_station_db)
       = Inr \<lparr>total_records = 4, total_days = 1, total_stations = 1, raw_nulls = 1\<rparr>
   \<and> (\<exists>es. analytics_air_quality (fst (transform_data sample_cast known_station_db)) = Some es
        \<and> length es = 4)"
proof -
  have raw: "raw_data_air_quality known_station_db = Some known_station_rows"
    by (simp add: known_station_db_def)
  have ne: "known_station_rows \<noteq> []" by (simp add: known_station_rows_def)
  have ts: "timestamps_cast sample_cast known_station_rows"
    by (simp add: timestamps_cast_def known_station_rows_def sample_cast_def sample_reading_def)
  have len: "length known_station_rows = 4" by (simp add: known_station_rows_def)
  from row_count_conservation[OF raw ne, of sample_cast] ts
  obtain d' rep where run: "transform_data sample_cast known_station_db = (d', Inr rep)"
    and all: "\<forall>d' rep. transform_data sample_cast known_station_db = (d', Inr rep) \<longrightarrow>
          (\<exists>es. analytics_air_quality d' = Some es \<and> length es = length known_station_rows
             \<and> total_records rep = length known_station_rows)"
    by blast
  from all run obtain es where es: "analytics_air_quality d' = Some es"
    "length es = length known_station_rows" by blast
  have rep: "snd (transform_data sample_cast known_station_db)
       = Inr \<lparr>total_records = 4, total_days = 1, total_stations = 1, raw_nulls = 1\<rparr>"
    by (simp add: run_defs known_station_db_def known_station_rows_def sample_defs row_defs)
  show ?thesis using raw ne ts rep run es len by simp
qed

section \<open>The raw table is read only\<close>

text \<open>
  C8. Whatever the run does (return or raise), the raw table after it is the raw table
  before it, row for row and field for field; in particular the number of rows with a null
  pm25, no2 or o3 is the one counted right after the load.
\<close>

theorem raw_store_unchanged:
  "raw_data_air_quality (fst (transform_data cast d)) = raw_data_air_quality d
   \<and> map_option load_null_count (raw_data_air_quality (fst (transform_data cast d)))
       = map_option load_null_count (raw_data_air_quality d)"
proof -
  have "raw_data_air_quality (fst (transform_data cast d)) = raw_data_air_quality d"
    by (simp add: transform_data_def split: option.splits sum.splits)
  then show ?thesis by simp
qed

section \<open>The validation task\<close>

text \<open>
  C9. The claim has the validator compare the enriched row count with the raw row count and
  fail the run when they differ.  On a database with two raw rows and an empty analytics
  table \<open>validate_pipeline\<close> logs 2, 1 and 0 and returns normally.
\<close>

theorem validator_accepts_mismatch:
  "validate_pipeline mismatched_db = Inr (2, 1, 0)
   \<and> map_option length (raw_data_air_quality mismatched_db)
       \<noteq> map_option length (analytics_air_quality mismatched_db)"
  by (simp add: validate_pipeline_def mismatched_db_def sql_count_def sample_reading_def)

text \<open>
  C9, as the code has it.  When both tables exist, \<open>validate_pipeline\<close> returns normally
  with the three numbers it logs: the raw row count, the number of raw rows with a null
  pm25, and the analytics row count.  It compares none of them.
\<close>

theorem validator_only_reports:
  assumes "raw_data_air_quality d = Some rows" and "analytics_air_quality d = Some es"
  shows "validate_pipeline d
         = Inr (length rows, length (filter (\<lambda>r. pm25 r = None) rows), length es)"
proof -
  have "length (map pm25 rows) - sql_count (map pm25 rows)
        = length (filter (\<lambda>x. x = None) (map pm25 rows))"
    by (rule count_nulls)
  also have "\<dots> = length (filter (\<lambda>r. pm25 r = None) rows)"
    by (simp add: filter_map comp_def)
  finally show ?thesis using assms by (simp add: validate_pipeline_def)
qed

theorem validator_only_reports_witness:
  "raw_data_air_quality mismatched_db
     = Some [sample_reading ''ST001'' None, sample_reading ''ST001'' (Some 10)]
   \<and> analytics_air_quality mismatched_db = Some []
   \<and> validate_pipeline mismatched_db = Inr (2, 1, 0)"
proof -
  have raw: "raw_data_air_quality mismatched_db
     = Some [sample_reading ''ST001'' None, sample_reading ''ST001'' (Some 10)]"
    and an: "analytics_air_quality mismatched_db = Some []"
    by (simp_all add: mismatched_db_def)
  from validator_only_reports[OF raw an]
  show ?thesis using raw an by (simp add: sample_reading_def)
qed

section \<open>Null AQI and the health category\<close>

text \<open>
  C10. After a run that returns, every row of a station without any non-null raw pm25 has
  a null pm25 and a null aqi in the enriched table, the health category Hazardous and the
  health color #7E0023: no comparison with a null aqi is true, so both \<open>CASE\<close>s take
  their \<open>ELSE\<close>.
\<close>

theorem null_pm25_is_hazardous:
  assumes raw: "raw_data_air_quality d = Some rows"
    and run: "transform_data cast d = (d', Inr rep)"
    and i: "i < length rows"
    and silent: "station_values pm25 rows (station_id (rows ! i)) = []"
  shows "\<exists>es. analytics_air_quality d' = Some es \<and> length es = length rows
     \<and> pm25 (es ! i) = None \<and> aqi (es ! i) = None
     \<and> health_category (es ! i) = ''Hazardous'' \<and> health_color (es ! i) = ''#7E0023''"
proof -
  from transform_data_Inr[OF run] raw obtain es where q: "analytics_query cast rows = Inr es"
    and d': "d' = d\<lparr>analytics_air_quality := Some es\<rparr>" by auto
  from analytics_query_Inr[OF q] i obtain t where len: "length es = length rows"
    and row: "es ! i = analytics_row (with_aqi_row (cleaned_row rows t (rows ! i)))" by blast
  have mem: "rows ! i \<in> set rows" using i by simp
  have null: "coalesce (pm25 (rows ! i)) (avg_over_station pm25 rows (rows ! i)) = None"
    using silent_value[OF silent mem] .
  show ?thesis
    using d' len
    by (simp add: row enriched_fields null aqi_of_None health_category_of_def health_color_of_def)
qed

theorem null_pm25_is_hazardous_witness:
  "raw_data_air_quality silent_station_db = Some silent_station_rows
   \<and> snd (transform_data sample_cast silent_station_db)
       = Inr \<lparr>total_records = 3, total_days = 1, total_stations = 2, raw_nulls = 2\<rparr>
   \<and> (2::nat) < length silent_station_rows
   \<and> station_values pm25 silent_station_rows (station_id (silent_station_rows ! 2)) = []
   \<and> (\<exists>es. analytics_air_quality (fst (transform_data sample_cast silent_station_db)) = Some es
        \<and> length es = 3
        \<and> pm25 (es ! 2) = None \<and> aqi (es ! 2) = None
        \<and> health_category (es ! 2) = ''Hazardous'' \<and> health_color (es ! 2) = ''#7E0023'')"
proof -
  have raw: "raw_data_air_quality silent_station_db = Some silent_station_rows"
    by (simp add: silent_station_db_def)
  have rep: "snd (transform_data sample_cast silent_station_db)
       = Inr \<lparr>total_records = 3, total_days = 1, total_stations = 2, raw_nulls = 2\<rparr>"
    by (simp add: run_defs sample_defs row_defs)
  have run: "transform_data sample_cast silent_station_db
       = (fst (transform_data sample_cast silent_station_db),
          Inr \<lparr>total_records = 3, total_days = 1, total_stations = 2, raw_nulls = 2\<rparr>)"
    using rep by (simp add: prod_eq_iff)
  have i: "(2::nat) < length silent_station_rows" by (simp add: silent_station_rows_def)
  have silent: "station_values pm25 silent_station_rows (station_id (silent_station_rows ! 2)) = []"
    by (simp add: station_values_def sample_defs)
  have len: "length silent_station_rows = 3" by (simp add: silent_station_rows_def)
  from null_pm25_is_hazardous[OF raw run i silent]
  show ?thesis using raw rep i silent len by auto
qed

section \<open>The health category of an enriched reading\<close>

lemma analytics_query_rows:
  assumes "analytics_query cast rows = Inr es" and "e \<in> set es"
  shows "\<exists>ts r. r \<in> set rows \<and> e = analytics_row (with_aqi_row (cleaned_row rows ts r))"
proof -
  from assms(2) obtain i where i: "i < length es" and e: "e = es ! i"
    by (auto simp: in_set_conv_nth)
  from analytics_query_Inr(1)[OF assms(1)] i have i': "i < length rows" by simp
  from analytics_query_Inr(2)[OF assms(1) i'] obtain ts
    where "es ! i = analytics_row (with_aqi_row (cleaned_row rows ts (rows ! i)))" ..
  with e i' show ?thesis by (metis nth_mem)
qed

text \<open>
  C4. After a run that returns, every row of the enriched table with a non-null aqi has the
  health category given by the fixed thresholds, each boundary in the lower class: up to 50
  Good, up to 100 Moderate, up to 150 Unhealthy for Sensitive Groups, up to 200 Unhealthy,
  up to 300 Very Unhealthy, above 300 Hazardous.  On the sample an aqi of exactly 50 is
  Good and an aqi of 50.5 is Moderate.
\<close>

theorem health_category_thresholds:
  assumes run: "transform_data cast d = (d', Inr rep)"
  shows "\<exists>es. analytics_air_quality d' = Some es
     \<and> (\<forall>e\<in>set es. \<forall>a. aqi e = Some a \<longrightarrow>
          health_category e =
            (if a \<le> 50 then ''Good''
             else if a \<le> 100 then ''Moderate''
             else if a \<le> 150 then ''Unhealthy for Sensitive Groups''
             else if a \<le> 200 then ''Unhealthy''
             else if a \<le> 300 then ''Very Unhealthy''
             else ''Hazardous''))"
proof -
  from transform_data_Inr[OF run] obtain rows es
    where q: "analytics_query cast rows = Inr es"
      and d': "d' = d\<lparr>analytics_air_quality := Some es\<rparr>" by blast
  have "health_category e = health_category_of (aqi e)" if "e \<in> set es" for e
  proof -
    from analytics_query_rows[OF q that] obtain ts r
      where "e = analytics_row (with_aqi_row (cleaned_row rows ts r))" by blast
    then show ?thesis by (simp add: enriched_fields)
  qed
  then show ?thesis using d' by (simp add: health_category_of_Some)
qed

theorem health_category_thresholds_witness:
  "snd (transform_data sample_cast boundary_db)
     = Inr \<lparr>total_records = 5, total_days = 1, total_stations = 4, raw_nulls = 1\<rparr>
   \<and> (\<exists>es. analytics_air_quality (fst (transform_data sample_cast boundary_db)) = Some es
        \<and> map aqi es = [Some 50, Some 50.5, Some 100, Some 400, None]
        \<and> health_category (es ! 0) = ''Good''
        \<and> health_category (es ! 1) = ''Moderate''
        \<and> health_category (es ! 2) = ''Moderate''
        \<and> health_category (es ! 3) = ''Hazardous'')"
proof -
  have rep: "snd (transform_data sample_cast boundary_db)
       = Inr \<lparr>total_records = 5, total_days = 1, total_stations = 4, raw_nulls = 1\<rparr>"
    by (simp add: run_defs sample_defs boundary_db_def boundary_rows_def row_defs)
  have run: "transform_data sample_cast boundary_db
       = (fst (transform_data sample_cast boundary_db),
          Inr \<lparr>total_records = 5, total_days = 1, total_stations = 4, raw_nulls = 1\<rparr>)"
    using rep by (simp add: prod_eq_iff)
  have aqis: "map_option (map aqi)
        (analytics_air_quality (fst (transform_data sample_cast boundary_db)))
       = Some [Some 50, Some 50.5, Some 100, Some 400, None]"
    by (simp add: run_defs sample_defs boundary_db_def boundary_rows_def row_defs
        avg_over_station_def partition_by_station_def sql_avg_def coalesce_def aqi_of_def
        sql_arith)
  from health_category_thresholds[OF run] obtain es
    where es: "analytics_air_quality (fst (transform_data sample_cast boundary_db)) = Some es"
      and cat: "\<forall>e\<in>set es. \<forall>a. aqi e = Some a \<longrightarrow>
          health_category e =
            (if a \<le> 50 then ''Good''
             else if a \<le> 100 then ''Moderate''
             else if a \<le> 150 then ''Unhealthy for Sensitive Groups''
             else if a \<le> 200 then ''Unhealthy''
             else if a \<le> 300 then ''Very Unhealthy''
             else ''Hazardous'')"
    by blast
  from aqis es have m: "map aqi es = [Some 50, Some 50.5, Some 100, Some 400, None]" by simp
  then obtain e0 e1 e2 e3 e4 where shape: "es = [e0, e1, e2, e3, e4]"
    and a0: "aqi e0 = Some 50" and a1: "aqi e1 = Some 50.5"
    and a2: "aqi e2 = Some 100" and a3: "aqi e3 = Some 400"
    by (auto simp: map_eq_Cons_conv)
  have row: "health_category e =
            (if a \<le> 50 then ''Good''
             else if a \<le> 100 then ''Moderate''
             else if a \<le> 150 then ''Unhealthy for Sensitive Groups''
             else if a \<le> 200 then ''Unhealthy''
             else if a \<le> 300 then ''Very Unhealthy''
             else ''Hazardous'')"
    if "e \<in> set es" "aqi e = Some a" for e a
    using cat that by blast
  have "health_category (es ! 0) = ''Good''" using row[OF _ a0] by (simp add: shape)
  moreover have "health_category (es ! 1) = ''Moderate''" using row[OF _ a1] by (simp add: shape)
  moreover have "health_category (es ! 2) = ''Moderate''" using row[OF _ a2] by (simp add: shape)
  moreover have "health_category (es ! 3) = ''Hazardous''" using row[OF _ a3] by (simp add: shape)
  ultimately show ?thesis using rep es m by simp
qed

end
